theory Spec2Isabelle
  imports Main
begin

section \<open>Errors and outcomes\<close>

text \<open>
  The error values the installer can return. \<open>ClusterNotFoundError\<close> is the package
  variable declared at the top of installer.go; \<open>ErrNoRows\<close> is the value
  sql.ErrNoRows that Scan reports when a query has no row; \<open>InvalidClusterType t\<close>
  is the result of fmt.Errorf("Invalid cluster type %T", c) for a value of type \<open>t\<close>;
  \<open>Failure msg\<close> is any other error handed back by a collaborator (validation,
  marshalling, the storage engine, the credential source).
\<close>

datatype error =
    ClusterNotFoundError
  | ErrNoRows
  | InvalidClusterType string
  | Failure string

text \<open>
  A call either returns, blocks for ever on a lock, or panics. A Go result
  \<open>error\<close> is an \<open>error option\<close> (\<open>None\<close> is nil), a result \<open>(T, error)\<close> is
  \<open>error + T\<close>.
\<close>

datatype 'a outcome = Returns 'a | Blocks | Panics

section \<open>pkg/stream: the basic stream\<close>

text \<open>
  Channels are references: \<open>chans\<close> records, for every channel made so far, whether
  it has been closed, and a channel value is its index. The field \<open>closed\<close> is an
  atomic.Value: \<open>None\<close> while nothing has been stored. \<open>closeOnce\<close> is true once the
  sync.Once has run.
\<close>

type_synonym chans = "bool list"

record Basic =
  StopCh :: nat
  Error :: "error option"
  closed :: "bool option"
  closeOnce :: bool

definition New :: "chans \<Rightarrow> Basic \<times> chans" where
  "New h =
     (let b = \<lparr>StopCh = length h, Error = None, closed = None, closeOnce = False\<rparr>;
          b = b\<lparr>closed := Some False\<rparr>
      in (b, h @ [False]))"

text \<open>
  \<open>s.closed.Load().(bool)\<close>: the type assertion panics when nothing was stored.
\<close>

definition IsClosed :: "Basic \<Rightarrow> bool outcome" where
  "IsClosed s = (case closed s of None \<Rightarrow> Panics | Some b \<Rightarrow> Returns b)"

definition Err :: "Basic \<Rightarrow> error option" where
  "Err s = Error s"

text \<open>
  Close has a value receiver: the stores to \<open>closed\<close> and \<open>closeOnce\<close> go to the
  callee's copy and are lost, the channel is shared. Closing a closed channel panics.
\<close>

definition Close :: "Basic \<Rightarrow> chans \<Rightarrow> (error option \<times> chans) outcome" where
  "Close s h =
     (if closeOnce s then Returns (None, h)
      else if StopCh s < length h \<and> \<not> h ! StopCh s then Returns (None, h[StopCh s := True])
      else Panics)"

section \<open>installer: the data model\<close>

text \<open>
  The declarations of Cluster, Domain, AWSCluster, Event and Subscription are not part
  of installer.go. The records below hold the fields that installer.go reads and writes:
  the columns FindCluster scans into a Cluster, the Domain it attaches, the fields
  ClusterID and cluster of an AWSCluster, and the three fields of the Event literals.
  \<open>providerFields\<close> stands for the remaining provider-only columns of an AWSCluster.
  Pointers are taken to be non-nil and are modelled by the value they point to.
\<close>

record Domain =
  DomainClusterID :: string
  Name :: string
  Token :: string

record ClusterRow =
  RowID :: string
  RowCredentialID :: string
  RowType :: string
  RowState :: string
  RowNumInstances :: int
  RowControllerKey :: string
  RowControllerPin :: string
  RowDashboardLoginToken :: string
  RowCACert :: string
  RowSSHKeyName :: string
  RowVpcCidr :: string
  RowSubnetCidr :: string
  RowDiscoveryToken :: string
  RowDNSZoneID :: string

record Cluster =
  ID :: string
  CredentialID :: string
  Type :: string
  State :: string
  NumInstances :: int
  ControllerKey :: string
  ControllerPin :: string
  DashboardLoginToken :: string
  CACert :: string
  SSHKeyName :: string
  VpcCidr :: string
  SubnetCidr :: string
  DiscoveryToken :: string
  DNSZoneID :: string
  Domain :: "Domain option"

record AWSCluster =
  ClusterID :: string
  providerFields :: "string list"
  cluster :: Cluster

text \<open>
  A value of type interface\{\}: a pointer to an AWSCluster, or a value of any other
  type, of which only the name of the type (what \%T prints) is kept.
\<close>

datatype iface = AWS AWSCluster | Other string

record Event =
  EventType :: string
  EventCluster :: "Cluster option"
  EventClusterID :: string

record Subscription =
  inbox :: "Event list"

datatype CredentialsProvider = Creds string string string

section \<open>installer: storage\<close>

text \<open>
  The four tables of the schema. A row of credentials is the pair (ID, Secret), a row of
  aws_clusters the pair of ClusterID and the other provider columns.
\<close>

record DB =
  clustersTable :: "ClusterRow list"
  awsClustersTable :: "(string \<times> string list) list"
  domainsTable :: "Domain list"
  credentialsTable :: "(string \<times> string) list"

text \<open>
  What installer.go calls and does not define. The first is code of the package kept
  in another file: the validation method of an AWSCluster, which fills defaults in and
  may fail. The second is the result of the reflective lookup of the field named ID on
  a value that is not an AWSCluster (\<open>None\<close> when it has no such string field, where
  Interface() or the type assertion panics). The others are the behaviour of the
  libraries: the error, if
  any, with which ql.Marshal, ql.Compile, db.Begin, each INSERT of an Exec, tx.Commit
  and each query fail; which of several matching rows a LIMIT 1 query without ORDER BY
  delivers; and what aws.EnvCreds() finds in the host environment.
\<close>

record Env =
  SetDefaultsAndValidate :: "AWSCluster \<Rightarrow> error + AWSCluster"
  FieldByNameID :: "iface \<Rightarrow> string option"
  marshalClusterErr :: "error option"
  marshalAWSErr :: "error option"
  compileErr :: "error option"
  beginErr :: "error option"
  insertClustersErr :: "error option"
  insertAWSClustersErr :: "error option"
  insertCredentialsErr :: "error option"
  commitErr :: "error option"
  queryClustersErr :: "error option"
  queryDomainsErr :: "error option"
  queryCredentialsErr :: "error option"
  rowChoice :: "nat \<Rightarrow> nat"
  EnvCreds :: "error + CredentialsProvider"

text \<open>ql.Marshal: the values of the exported, stored fields, in column order.\<close>

definition MarshalCluster :: "Env \<Rightarrow> Cluster \<Rightarrow> error + ClusterRow" where
  "MarshalCluster env c =
     (case marshalClusterErr env of
        Some err \<Rightarrow> Inl err
      | None \<Rightarrow> Inr \<lparr>RowID = ID c, RowCredentialID = CredentialID c, RowType = Type c,
          RowState = State c, RowNumInstances = NumInstances c,
          RowControllerKey = ControllerKey c, RowControllerPin = ControllerPin c,
          RowDashboardLoginToken = DashboardLoginToken c, RowCACert = CACert c,
          RowSSHKeyName = SSHKeyName c, RowVpcCidr = VpcCidr c, RowSubnetCidr = SubnetCidr c,
          RowDiscoveryToken = DiscoveryToken c, RowDNSZoneID = DNSZoneID c\<rparr>)"

definition MarshalAWS :: "Env \<Rightarrow> AWSCluster \<Rightarrow> error + string \<times> string list" where
  "MarshalAWS env c =
     (case marshalAWSErr env of
        Some err \<Rightarrow> Inl err
      | None \<Rightarrow> Inr (ClusterID c, providerFields c))"

text \<open>
  A transaction keeps the content of the storage at its start. Exec writes to the
  storage, Rollback puts the kept content back, Commit keeps what was written; a Commit
  that fails leaves the transaction unapplied.
\<close>

record Tx =
  snapshot :: DB

definition Begin :: "Env \<Rightarrow> DB \<Rightarrow> error + Tx" where
  "Begin env d = (case beginErr env of Some err \<Rightarrow> Inl err | None \<Rightarrow> Inr \<lparr>snapshot = d\<rparr>)"

definition Rollback :: "Tx \<Rightarrow> DB \<Rightarrow> DB" where
  "Rollback tx d = snapshot tx"

definition Commit :: "Env \<Rightarrow> Tx \<Rightarrow> DB \<Rightarrow> error option \<times> DB" where
  "Commit env tx d = (case commitErr env of Some err \<Rightarrow> (Some err, snapshot tx) | None \<Rightarrow> (None, d))"

text \<open>
  Exec of the compiled list INSERT INTO clusters ...; INSERT INTO aws_clusters ...: the
  statements run in order and the first failure stops the list, with the rows written so
  far still in place. The placeholders bind the cluster's fields to the first statement
  and the provider's fields to the second.
\<close>

definition ExecInsertCluster ::
  "Env \<Rightarrow> ClusterRow \<Rightarrow> string \<times> string list \<Rightarrow> DB \<Rightarrow> error option \<times> DB" where
  "ExecInsertCluster env clusterFields awsFields d =
     (case insertClustersErr env of
        Some err \<Rightarrow> (Some err, d)
      | None \<Rightarrow>
          (let d1 = d\<lparr>clustersTable := clustersTable d @ [clusterFields]\<rparr> in
           case insertAWSClustersErr env of
             Some err \<Rightarrow> (Some err, d1)
           | None \<Rightarrow> (None, d1\<lparr>awsClustersTable := awsClustersTable d1 @ [awsFields]\<rparr>)))"

text \<open>Exec of INSERT INTO credentials (ID, Secret) VALUES ($1, $2).\<close>

definition ExecInsertCredentials :: "Env \<Rightarrow> string \<Rightarrow> string \<Rightarrow> DB \<Rightarrow> error option \<times> DB" where
  "ExecInsertCredentials env cid secret d =
     (case insertCredentialsErr env of
        Some err \<Rightarrow> (Some err, d)
      | None \<Rightarrow> (None, d\<lparr>credentialsTable := credentialsTable d @ [(cid, secret)]\<rparr>))"

text \<open>
  QueryRow(... LIMIT 1).Scan(...) over the rows that satisfy the WHERE clause: the
  query's own failure, sql.ErrNoRows when no row matches, one of the matching rows
  otherwise.
\<close>

definition limit1 :: "Env \<Rightarrow> 'a list \<Rightarrow> 'a option" where
  "limit1 env rows =
     (if rows = [] then None else Some (rows ! (rowChoice env (length rows) mod length rows)))"

definition QueryRowScan :: "Env \<Rightarrow> error option \<Rightarrow> 'a list \<Rightarrow> error + 'a" where
  "QueryRowScan env fault rows =
     (case fault of
        Some err \<Rightarrow> Inl err
      | None \<Rightarrow> (case limit1 env rows of None \<Rightarrow> Inl ErrNoRows | Some r \<Rightarrow> Inr r))"

section \<open>installer: the Installer\<close>

text \<open>
  The fields of the Go struct that carry state. Of the four locks only dbMtx is kept,
  as the flag "held for writing": it is the one lock held across a call to another
  method. \<open>tasks\<close> holds the provisioning tasks started so far and \<open>history\<close> the
  effects completed so far, in order; neither is a field of the Go struct, they make
  what was started and the order of the effects observable.
\<close>

datatype effect =
    Persisted string
  | Registered string
  | Emitted string string
  | ProvisioningStarted string

record Installer =
  db :: DB
  events :: "Event list"
  subscriptions :: "Subscription list"
  clusters :: "iface list"
  dbMtx :: bool
  tasks :: "string list"
  history :: "effect list"

definition emptyDB :: DB where
  "emptyDB = \<lparr>clustersTable = [], awsClustersTable = [], domainsTable = [], credentialsTable = []\<rparr>"

text \<open>NewInstaller, with the content of the storage that openDB opened.\<close>

definition NewInstaller :: "DB \<Rightarrow> Installer" where
  "NewInstaller d =
     \<lparr>db = d, events = [], subscriptions = [], clusters = [], dbMtx = False, tasks = [],
      history = []\<rparr>"

text \<open>
  Modelled from the spec: SendEvent is not in the sources. Emitting an event appends it
  to the in-memory log and delivers it to every currently registered subscription.
\<close>

definition SendEvent :: "Event \<Rightarrow> Installer \<Rightarrow> Installer" where
  "SendEvent e i =
     i\<lparr>events := events i @ [e],
       subscriptions := map (\<lambda>s. s\<lparr>inbox := inbox s @ [e]\<rparr>) (subscriptions i),
       history := history i @ [Emitted (EventType e) (EventClusterID e)]\<rparr>"

text \<open>
  Modelled from the spec: the method Run of an AWSCluster is not in the sources. It
  begins the asynchronous provisioning of the cluster, fire-and-forget: the task is
  started and the call returns, the cluster's state is left to the task.
\<close>

definition Run :: "AWSCluster \<Rightarrow> Installer \<Rightarrow> Installer" where
  "Run c i =
     i\<lparr>tasks := tasks i @ [ID (cluster c)],
       history := history i @ [ProvisioningStarted (ID (cluster c))]\<rparr>"

definition saveAWSCluster :: "Env \<Rightarrow> AWSCluster \<Rightarrow> Installer \<Rightarrow> (error option \<times> Installer) outcome" where
  "saveAWSCluster env c i =
     (if dbMtx i then Blocks
      else Returns
        (case MarshalCluster env (cluster c) of
           Inl err \<Rightarrow> (Some err, i)
         | Inr clusterFields \<Rightarrow>
        (case MarshalAWS env c of
           Inl err \<Rightarrow> (Some err, i)
         | Inr awsFields \<Rightarrow>
        (case compileErr env of
           Some err \<Rightarrow> (Some err, i)
         | None \<Rightarrow>
        (case Begin env (db i) of
           Inl err \<Rightarrow> (Some err, i)
         | Inr tx \<Rightarrow>
        (case ExecInsertCluster env clusterFields awsFields (db i) of
           (Some err, d) \<Rightarrow> (Some err, i\<lparr>db := Rollback tx d\<rparr>)
         | (None, d) \<Rightarrow>
        (case Commit env tx d of
           (Some err, d') \<Rightarrow> (Some err, i\<lparr>db := d'\<rparr>)
         | (None, d') \<Rightarrow>
             (None, i\<lparr>db := d', history := history i @ [Persisted (ID (cluster c))]\<rparr>))))))))"

definition launchAWSCluster :: "Env \<Rightarrow> AWSCluster \<Rightarrow> Installer \<Rightarrow> (error option \<times> Installer) outcome" where
  "launchAWSCluster env c0 i0 =
     (case SetDefaultsAndValidate env c0 of
        Inl err \<Rightarrow> Returns (Some err, i0)
      | Inr c \<Rightarrow>
          (case saveAWSCluster env c i0 of
             Blocks \<Rightarrow> Blocks
           | Panics \<Rightarrow> Panics
           | Returns (Some err, i1) \<Rightarrow> Returns (Some err, i1)
           | Returns (None, i1) \<Rightarrow>
               (let i2 = i1\<lparr>clusters := clusters i1 @ [AWS c],
                            history := history i1 @ [Registered (ID (cluster c))]\<rparr>;
                    i3 = SendEvent \<lparr>EventType = ''new_cluster'', EventCluster = Some (cluster c),
                                    EventClusterID = ID (cluster c)\<rparr> i2;
                    i4 = Run c i3
                in Returns (None, i4))))"

definition LaunchCluster :: "Env \<Rightarrow> iface \<Rightarrow> Installer \<Rightarrow> (error option \<times> Installer) outcome" where
  "LaunchCluster env c i =
     (case c of
        AWS v \<Rightarrow> launchAWSCluster env v i
      | Other t \<Rightarrow> Returns (Some (InvalidClusterType t), i))"

definition SaveAWSCredentials ::
  "Env \<Rightarrow> string \<Rightarrow> string \<Rightarrow> Installer \<Rightarrow> (error option \<times> Installer) outcome" where
  "SaveAWSCredentials env cid secret i =
     (if dbMtx i then Blocks
      else Returns
        (case Begin env (db i) of
           Inl err \<Rightarrow> (Some err, i)
         | Inr tx \<Rightarrow>
        (case ExecInsertCredentials env cid secret (db i) of
           (Some err, d) \<Rightarrow> (Some err, i\<lparr>db := Rollback tx d\<rparr>)
         | (None, d) \<Rightarrow>
        (case Commit env tx d of (err, d') \<Rightarrow> (err, i\<lparr>db := d'\<rparr>)))))"

text \<open>
  The columns of the table credentials are the two that the INSERT of
  SaveAWSCredentials names: ID and Secret. The names of columns are case-sensitive in
  ql, and a query that names a column the table does not have fails ("unknown field").
\<close>

definition credentialsColumn :: "string \<Rightarrow> (string \<times> string \<Rightarrow> string) option" where
  "credentialsColumn name =
     (if name = ''ID'' then Some fst else if name = ''Secret'' then Some snd else None)"

text \<open>
  The query of FindAWSCredentials is SELECT Secret FROM credentials WHERE id == $1
  LIMIT 1: it selects the column Secret and filters on a column written id.
\<close>

definition FindAWSCredentials :: "Env \<Rightarrow> string \<Rightarrow> Installer \<Rightarrow> (error + CredentialsProvider) outcome" where
  "FindAWSCredentials env cid i =
     (if cid = ''aws_env'' then Returns (EnvCreds env)
      else if dbMtx i then Blocks
      else Returns
        (case credentialsColumn ''Secret'' of
           None \<Rightarrow> Inl (Failure ''unknown field Secret'')
         | Some selected \<Rightarrow>
        (case credentialsColumn ''id'' of
           None \<Rightarrow> Inl (Failure ''unknown field id'')
         | Some filtered \<Rightarrow>
        (case QueryRowScan env (queryCredentialsErr env)
                (map selected (filter (\<lambda>r. filtered r = cid) (credentialsTable (db i)))) of
           Inl err \<Rightarrow> Inl err
         | Inr secret \<Rightarrow> Inr (Creds cid secret [])))))"

text \<open>The scan of the registry at the head of FindCluster.\<close>

fun lookupRegistry :: "string \<Rightarrow> iface list \<Rightarrow> Cluster option" where
  "lookupRegistry cid [] = None"
| "lookupRegistry cid (AWS c # cs) =
     (if ClusterID c = cid then Some (cluster c) else lookupRegistry cid cs)"
| "lookupRegistry cid (Other t # cs) = lookupRegistry cid cs"

definition FindCluster :: "Env \<Rightarrow> string \<Rightarrow> Installer \<Rightarrow> (error + Cluster) outcome" where
  "FindCluster env cid i =
     (case lookupRegistry cid (clusters i) of
        Some c \<Rightarrow> Returns (Inr c)
      | None \<Rightarrow>
          if dbMtx i then Blocks
          else Returns
            (case QueryRowScan env (queryClustersErr env)
                    (filter (\<lambda>r. RowID r = cid) (clustersTable (db i))) of
               Inl err \<Rightarrow> Inl err
             | Inr r \<Rightarrow>
                 (let c = \<lparr>ID = cid, CredentialID = RowCredentialID r, Type = RowType r,
                            State = RowState r, NumInstances = RowNumInstances r,
                            ControllerKey = RowControllerKey r,
                            ControllerPin = RowControllerPin r,
                            DashboardLoginToken = RowDashboardLoginToken r,
                            CACert = RowCACert r, SSHKeyName = RowSSHKeyName r,
                            VpcCidr = RowVpcCidr r, SubnetCidr = RowSubnetCidr r,
                            DiscoveryToken = RowDiscoveryToken r, DNSZoneID = RowDNSZoneID r,
                            Domain = None\<rparr>
                  in case QueryRowScan env (queryDomainsErr env)
                            (filter (\<lambda>d. DomainClusterID d = ID c) (domainsTable (db i))) of
                       Inl err \<Rightarrow> if err \<noteq> ErrNoRows then Inl err else Inr c
                     | Inr d \<Rightarrow>
                         Inr (c\<lparr>Domain := Some \<lparr>DomainClusterID = ID c, Name = Name d,
                                                 Token = Token d\<rparr>\<rparr>))))"

text \<open>
  reflect.Indirect(reflect.ValueOf(c)).FieldByName("ID").Interface().(string): the fields
  of an AWSCluster that installer.go names are ClusterID and cluster, and the Cluster
  behind cluster is a named field, whose ID reflection does not promote. An AWSCluster
  has no field ID, FieldByName yields the zero Value and Interface() panics.
\<close>

definition reflectID :: "Env \<Rightarrow> iface \<Rightarrow> string option" where
  "reflectID env v = (case v of AWS c \<Rightarrow> None | Other t \<Rightarrow> FieldByNameID env (Other t))"

text \<open>
  The loop of DeleteCluster that rebuilds the registry: an entry is kept when the
  field ID found by reflection differs from the id; an entry without such a field
  panics.
\<close>

fun removeByID :: "(iface \<Rightarrow> string option) \<Rightarrow> string \<Rightarrow> iface list \<Rightarrow> iface list \<Rightarrow> iface list option" where
  "removeByID f cid acc [] = Some acc"
| "removeByID f cid acc (c # cs) =
     (case f c of
        None \<Rightarrow> None
      | Some cID \<Rightarrow> removeByID f cid (if cID \<noteq> cid then acc @ [c] else acc) cs)"

text \<open>
  DeleteCluster takes dbMtx for writing around its call of FindCluster, which asks for
  the same lock for reading as soon as the registry misses.
\<close>

definition DeleteCluster :: "Env \<Rightarrow> string \<Rightarrow> Installer \<Rightarrow> (error option \<times> Installer) outcome" where
  "DeleteCluster env cid i =
     (if dbMtx i then Blocks
      else case FindCluster env cid (i\<lparr>dbMtx := True\<rparr>) of
             Blocks \<Rightarrow> Blocks
           | Panics \<Rightarrow> Panics
           | Returns (Inl err) \<Rightarrow> Returns (Some err, i)
           | Returns (Inr found) \<Rightarrow>
               (case removeByID (reflectID env) cid [] (clusters i) of
                  None \<Rightarrow> Panics
                | Some cs \<Rightarrow>
                    Returns (None,
                      SendEvent \<lparr>EventType = ''cluster_deleted'', EventCluster = None,
                                 EventClusterID = cid\<rparr> (i\<lparr>clusters := cs\<rparr>))))"

section \<open>installer: sample values\<close>

text \<open>
  Concrete values at which the theorems below are instantiated. The sample validation
  is modelled from the spec: a launch request missing a credential id fails validation.
  The sample reflective lookup finds no field ID on a value of another type.
\<close>

definition sampleCluster :: Cluster where
  "sampleCluster =
     \<lparr>ID = ''c1'', CredentialID = ''key1'', Type = ''aws'', State = ''starting'',
      NumInstances = 1, ControllerKey = [], ControllerPin = [], DashboardLoginToken = [],
      CACert = [], SSHKeyName = [], VpcCidr = [], SubnetCidr = [], DiscoveryToken = [],
      DNSZoneID = [], Domain = None\<rparr>"

definition sampleAWS :: AWSCluster where
  "sampleAWS = \<lparr>ClusterID = ''c1'', providerFields = [''us-east-1''], cluster = sampleCluster\<rparr>"

definition sampleValidate :: "AWSCluster \<Rightarrow> error + AWSCluster" where
  "sampleValidate c =
     (if CredentialID (cluster c) = [] then Inl (Failure ''missing credential id'') else Inr c)"

definition sampleFieldByNameID :: "iface \<Rightarrow> string option" where
  "sampleFieldByNameID v = None"

definition sampleEnv :: Env where
  "sampleEnv =
     \<lparr>SetDefaultsAndValidate = sampleValidate, FieldByNameID = sampleFieldByNameID,
      marshalClusterErr = None, marshalAWSErr = None, compileErr = None, beginErr = None,
      insertClustersErr = None, insertAWSClustersErr = None, insertCredentialsErr = None,
      commitErr = None, queryClustersErr = None, queryDomainsErr = None,
      queryCredentialsErr = None, rowChoice = (\<lambda>n. 0),
      EnvCreds = Inr (Creds ''AKIA'' ''envsecret'' [])\<rparr>"

definition sampleAWS2 :: AWSCluster where
  "sampleAWS2 =
     \<lparr>ClusterID = ''c2'', providerFields = [''eu-west-1''],
      cluster = sampleCluster\<lparr>ID := ''c2''\<rparr>\<rparr>"

definition sampleRegistered :: Installer where
  "sampleRegistered = (NewInstaller emptyDB)\<lparr>clusters := [AWS sampleAWS, AWS sampleAWS2]\<rparr>"

definition sampleEnvAWSInsertFails :: Env where
  "sampleEnvAWSInsertFails = sampleEnv\<lparr>insertAWSClustersErr := Some (Failure ''aws_clusters'')\<rparr>"

lemmas sample_defs =
  sampleEnv_def sampleAWS_def sampleAWS2_def sampleCluster_def sampleValidate_def
  sampleFieldByNameID_def sampleRegistered_def sampleEnvAWSInsertFails_def
  NewInstaller_def emptyDB_def

section \<open>Facts about the storage and the registry\<close>

text \<open>A save that reports an error leaves the whole installer as it was.\<close>

lemma saveAWSCluster_error_unchanged:
  "saveAWSCluster env c i = Returns (Some err, i1) \<Longrightarrow> i1 = i"
  by (auto simp: saveAWSCluster_def Begin_def Rollback_def Commit_def ExecInsertCluster_def
      Let_def split: if_splits sum.splits option.splits prod.splits)

text \<open>A save that succeeds has added one row to each table and nothing else.\<close>

lemma saveAWSCluster_ok:
  "saveAWSCluster env c i = Returns (None, i1) \<Longrightarrow>
     (\<exists>row. MarshalCluster env (cluster c) = Inr row \<and>
        i1 = i\<lparr>db := (db i)\<lparr>clustersTable := clustersTable (db i) @ [row],
                   awsClustersTable :=
                     awsClustersTable (db i) @ [(ClusterID c, providerFields c)]\<rparr>,
               history := history i @ [Persisted (ID (cluster c))]\<rparr>)"
  by (auto simp: saveAWSCluster_def Begin_def Rollback_def Commit_def ExecInsertCluster_def
      MarshalAWS_def Let_def split: if_splits sum.splits option.splits prod.splits)

lemma saveAWSCluster_ok_second_insert:
  "saveAWSCluster env c i = Returns (None, i1) \<Longrightarrow> insertAWSClustersErr env = None"
  by (auto simp: saveAWSCluster_def Begin_def Rollback_def Commit_def ExecInsertCluster_def
      MarshalAWS_def Let_def split: if_splits sum.splits option.splits prod.splits)




lemma limit1_Nil: "limit1 env [] = None"
  by (simp add: limit1_def)

lemma lookupRegistry_None_iff:
  "lookupRegistry cid cs = None \<longleftrightarrow> (\<forall>c. AWS c \<in> set cs \<longrightarrow> ClusterID c \<noteq> cid)"
proof (induction cid cs rule: lookupRegistry.induct)
  case (1 cid)
  then show ?case by simp
next
  case (2 cid c cs)
  then show ?case by auto
next
  case (3 cid t cs)
  then show ?case by auto
qed

text \<open>
  For an id that is in neither the registry nor the clusters table, FindCluster never
  returns a cluster, whatever the lock and the storage do; with the lock free and a
  query that does not itself fail, what it returns is sql.ErrNoRows.
\<close>

lemma FindCluster_absent_no_cluster:
  assumes "lookupRegistry cid (clusters i) = None"
    and "cid \<notin> RowID ` set (clustersTable (db i))"
  shows "FindCluster env cid i \<noteq> Returns (Inr c)"
proof -
  from assms(2) have "filter (\<lambda>r. RowID r = cid) (clustersTable (db i)) = []"
    by (auto simp: filter_empty_conv)
  with assms(1) show ?thesis
    by (simp add: FindCluster_def QueryRowScan_def limit1_Nil split: option.splits)
qed

lemma FindCluster_absent_ErrNoRows:
  assumes "lookupRegistry cid (clusters i) = None"
    and "cid \<notin> RowID ` set (clustersTable (db i))"
    and "\<not> dbMtx i" and "queryClustersErr env = None"
  shows "FindCluster env cid i = Returns (Inl ErrNoRows)"
proof -
  from assms(2) have "filter (\<lambda>r. RowID r = cid) (clustersTable (db i)) = []"
    by (auto simp: filter_empty_conv)
  with assms(1,3,4) show ?thesis
    by (simp add: FindCluster_def QueryRowScan_def limit1_Nil)
qed

text \<open>
  The rebuilding loop of DeleteCluster panics as soon as the registry holds an
  AWSCluster.
\<close>

lemma removeByID_AWS:
  "AWS c \<in> set cs \<Longrightarrow> removeByID (reflectID env) cid acc cs = None"
proof (induction cs arbitrary: acc)
  case Nil
  then show ?case by simp
next
  case (Cons x xs)
  show ?case
  proof (cases "reflectID env x")
    case None
    then show ?thesis by simp
  next
    case (Some v)
    then have "x \<noteq> AWS c" by (auto simp: reflectID_def)
    with Cons.prems have "AWS c \<in> set xs" by auto
    from Cons.IH [OF this] Some show ?thesis by simp
  qed
qed

text \<open>
  DeleteCluster holds dbMtx for writing when it calls FindCluster: for an id that the
  registry does not hold, FindCluster asks for the lock again and the call never returns.
\<close>

lemma DeleteCluster_registry_miss_blocks:
  "lookupRegistry cid (clusters i) = None \<Longrightarrow> DeleteCluster env cid i = Blocks"
  by (simp add: DeleteCluster_def FindCluster_def)

text \<open>For an id that the registry holds, the rebuilding loop panics.\<close>

lemma DeleteCluster_registry_hit_panics:
  assumes "lookupRegistry cid (clusters i) = Some found" and "\<not> dbMtx i"
  shows "DeleteCluster env cid i = Panics"
proof -
  from assms(1) have "lookupRegistry cid (clusters i) \<noteq> None" by simp
  then obtain c where "AWS c \<in> set (clusters i)"
    unfolding lookupRegistry_None_iff by blast
  then have "removeByID (reflectID env) cid [] (clusters i) = None"
    by (rule removeByID_AWS)
  with assms show ?thesis
    by (simp add: DeleteCluster_def FindCluster_def)
qed

text \<open>So DeleteCluster returns on no input at all.\<close>

lemma DeleteCluster_never_returns: "DeleteCluster env cid i \<noteq> Returns x"
proof (cases "dbMtx i")
  case True
  then show ?thesis by (simp add: DeleteCluster_def)
next
  case False
  show ?thesis
  proof (cases "lookupRegistry cid (clusters i)")
    case None
    then show ?thesis by (simp add: DeleteCluster_registry_miss_blocks)
  next
    case (Some found)
    with False show ?thesis by (simp add: DeleteCluster_registry_hit_panics)
  qed
qed

text \<open>
  For every id but the reserved one, FindAWSCredentials returns no credentials,
  whatever the table holds: its query names a column the table does not have.
\<close>

lemma FindAWSCredentials_stored_fails:
  "cid \<noteq> ''aws_env'' \<Longrightarrow> \<not> dbMtx i \<Longrightarrow>
     FindAWSCredentials env cid i = Returns (Inl (Failure ''unknown field id''))"
  by (simp add: FindAWSCredentials_def credentialsColumn_def)

section \<open>Lookup of an absent cluster\<close>

text \<open>
  C1. The claim: for every id absent from both the registry and the storage,
  FindCluster returns ClusterNotFoundError and never a cluster. On a new installer over
  an empty storage the id c1 is in neither the registry nor the clusters table, and
  FindCluster returns no cluster, but the error it returns is the value sql.ErrNoRows
  that Scan reports, which is not ClusterNotFoundError.
\<close>

theorem FindCluster_absent_returns_ErrNoRows:
  "lookupRegistry ''c1'' (clusters (NewInstaller emptyDB)) = None
   \<and> clustersTable (db (NewInstaller emptyDB)) = []
   \<and> FindCluster sampleEnv ''c1'' (NewInstaller emptyDB) = Returns (Inl ErrNoRows)
   \<and> FindCluster sampleEnv ''c1'' (NewInstaller emptyDB) \<noteq> Returns (Inl ClusterNotFoundError)"
  by (simp add: sample_defs FindCluster_def QueryRowScan_def limit1_def)

section \<open>The order of a launch\<close>

text \<open>
  C2. For every launch request that passes validation and whose durable write
  succeeds, LaunchCluster returns without error, and the effects it has added to the
  history are, in this order: the write to the storage, the append to the registry,
  the emission of new_cluster, the start of the provisioning task. The write is
  complete (the row is in the table) in a state where registry, events and tasks are
  still as before. The cluster is registered as validation left it: the call returns
  once the task is started, whatever state provisioning later reaches.
\<close>

theorem LaunchCluster_order:
  assumes "SetDefaultsAndValidate env c0 = Inr c"
    and "saveAWSCluster env c i = Returns (None, i1)"
  shows "\<exists>i' row. LaunchCluster env (AWS c0) i = Returns (None, i')
           \<and> MarshalCluster env (cluster c) = Inr row
           \<and> clustersTable (db i1) = clustersTable (db i) @ [row]
           \<and> clusters i1 = clusters i \<and> events i1 = events i \<and> tasks i1 = tasks i
           \<and> db i' = db i1
           \<and> history i' =
               history i @ [Persisted (ID (cluster c)), Registered (ID (cluster c)),
                 Emitted ''new_cluster'' (ID (cluster c)), ProvisioningStarted (ID (cluster c))]
           \<and> clusters i' = clusters i @ [AWS c]
           \<and> events i' =
               events i @ [\<lparr>EventType = ''new_cluster'', EventCluster = Some (cluster c),
                 EventClusterID = ID (cluster c)\<rparr>]
           \<and> tasks i' = tasks i @ [ID (cluster c)]"
proof -
  from saveAWSCluster_ok [OF assms(2)] obtain row where
    row: "MarshalCluster env (cluster c) = Inr row" and
    i1: "i1 = i\<lparr>db := (db i)\<lparr>clustersTable := clustersTable (db i) @ [row],
                   awsClustersTable :=
                     awsClustersTable (db i) @ [(ClusterID c, providerFields c)]\<rparr>,
               history := history i @ [Persisted (ID (cluster c))]\<rparr>"
    by blast
  have "LaunchCluster env (AWS c0) i =
          Returns (None,
            Run c (SendEvent \<lparr>EventType = ''new_cluster'', EventCluster = Some (cluster c),
                               EventClusterID = ID (cluster c)\<rparr>
              (i1\<lparr>clusters := clusters i1 @ [AWS c],
                  history := history i1 @ [Registered (ID (cluster c))]\<rparr>)))"
    using assms by (simp add: LaunchCluster_def launchAWSCluster_def Let_def)
  then show ?thesis using row i1
    by (simp add: Run_def SendEvent_def)
qed

theorem LaunchCluster_order_witness:
  "\<exists>i'. LaunchCluster sampleEnv (AWS sampleAWS) (NewInstaller emptyDB) = Returns (None, i')
     \<and> history i' =
         [Persisted ''c1'', Registered ''c1'', Emitted ''new_cluster'' ''c1'',
          ProvisioningStarted ''c1'']
     \<and> clusters i' = [AWS sampleAWS] \<and> tasks i' = [''c1'']"
proof -
  have v: "SetDefaultsAndValidate sampleEnv sampleAWS = Inr sampleAWS"
    by (simp add: sample_defs)
  obtain i1 where
    s: "saveAWSCluster sampleEnv sampleAWS (NewInstaller emptyDB) = Returns (None, i1)"
    by (simp add: sample_defs saveAWSCluster_def MarshalCluster_def MarshalAWS_def Begin_def
        ExecInsertCluster_def Commit_def Let_def)
  from LaunchCluster_order [OF v s] show ?thesis
    by (auto simp: sample_defs)
qed

section \<open>The save of a cluster is atomic\<close>



section \<open>A launch that fails validation\<close>

text \<open>
  C4. For every launch request that fails validation, LaunchCluster returns the
  validation error and the installer is exactly as before the call: nothing is written
  to the storage and the registry, hence its length, is unchanged.
\<close>

theorem LaunchCluster_validation_fails:
  assumes "SetDefaultsAndValidate env c = Inl err"
  shows "LaunchCluster env (AWS c) i = Returns (Some err, i)"
  using assms by (simp add: LaunchCluster_def launchAWSCluster_def)

theorem LaunchCluster_validation_fails_witness:
  "LaunchCluster sampleEnv
     (AWS (sampleAWS\<lparr>cluster := sampleCluster\<lparr>CredentialID := []\<rparr>\<rparr>)) (NewInstaller emptyDB)
     = Returns (Some (Failure ''missing credential id''), NewInstaller emptyDB)
   \<and> length (clusters (NewInstaller emptyDB)) = 0"
proof -
  have v: "SetDefaultsAndValidate sampleEnv
             (sampleAWS\<lparr>cluster := sampleCluster\<lparr>CredentialID := []\<rparr>\<rparr>)
           = Inl (Failure ''missing credential id'')"
    by (simp add: sample_defs)
  from LaunchCluster_validation_fails [OF v] show ?thesis
    by (simp add: NewInstaller_def)
qed

section \<open>Deleting a cluster\<close>

text \<open>
  C5. The claim: after DeleteCluster(id) has returned without error, no entry with that
  id remains in the registry and a cluster_deleted event for id has been emitted,
  while the other entries and the storage are unchanged. With the clusters c1 and c2
  registered, the scan of the registry finds c1, and DeleteCluster(c1) does not return:
  the rebuilding loop reads a field named ID, which an AWSCluster does not have, and
  panics, so c1 stays registered and no event is emitted. For the id c3, which is not
  registered, DeleteCluster blocks for ever on the lock it already holds.
\<close>

theorem DeleteCluster_registered_panics:
  "lookupRegistry ''c1'' (clusters sampleRegistered) = Some sampleCluster
   \<and> DeleteCluster sampleEnv ''c1'' sampleRegistered = Panics
   \<and> DeleteCluster sampleEnv ''c3'' sampleRegistered = Blocks"
  by (simp add: sample_defs DeleteCluster_def FindCluster_def reflectID_def)

section \<open>A launch request of an unsupported type\<close>

text \<open>
  C6. For every launch request that is not an AWSCluster, LaunchCluster fails with
  the error "Invalid cluster type", which names the type, and the installer is exactly
  as before: nothing is persisted, registered or emitted.
\<close>

theorem LaunchCluster_unsupported:
  "LaunchCluster env (Other t) i = Returns (Some (InvalidClusterType t), i)"
  by (simp add: LaunchCluster_def)

section \<open>Credentials\<close>

text \<open>
  C7. The claim: for every id other than aws_env and every secret, after
  SaveAWSCredentials(id, secret) has succeeded, FindAWSCredentials(id) succeeds and
  returns the credentials built from that id and that secret. On a new installer over
  an empty storage, SaveAWSCredentials(key1, s3cret) succeeds and writes the row, and
  FindAWSCredentials(key1) then fails: the save writes the column ID, the query of the
  find filters on a column written id, which the table does not have.
\<close>

theorem SaveAWSCredentials_then_find_fails:
  "\<exists>i'. SaveAWSCredentials sampleEnv ''key1'' ''s3cret'' (NewInstaller emptyDB) = Returns (None, i')
     \<and> credentialsTable (db i') = [(''key1'', ''s3cret'')]
     \<and> FindAWSCredentials sampleEnv ''key1'' i' = Returns (Inl (Failure ''unknown field id''))"
  by (simp add: sample_defs SaveAWSCredentials_def Begin_def ExecInsertCredentials_def
      Commit_def FindAWSCredentials_def credentialsColumn_def)

text \<open>
  C8. FindAWSCredentials called with the reserved identifier aws_env returns what
  aws.EnvCreds() finds in the host environment. The result depends on nothing in the
  installer: not on the credentials table, not on whether a query would fail, not on
  the lock of the storage.
\<close>

theorem FindAWSCredentials_aws_env:
  "FindAWSCredentials env ''aws_env'' i = Returns (EnvCreds env)"
  by (simp add: FindAWSCredentials_def)

section \<open>A launch whose save fails\<close>

text \<open>
  C9. For every AWS launch request that passes validation and whose save returns an
  error, whatever step of the save failed, launchAWSCluster returns that error and the
  installer is exactly as before the call: the cluster is not in the registry, no
  event has been emitted, no provisioning task has been started.
\<close>

theorem launchAWSCluster_save_fails:
  assumes "SetDefaultsAndValidate env c0 = Inr c"
    and "saveAWSCluster env c i = Returns (Some err, i1)"
  shows "launchAWSCluster env c0 i = Returns (Some err, i)"
  using assms saveAWSCluster_error_unchanged [OF assms(2)]
  by (simp add: launchAWSCluster_def)

theorem launchAWSCluster_save_fails_witness:
  "launchAWSCluster sampleEnvAWSInsertFails sampleAWS (NewInstaller emptyDB) =
     Returns (Some (Failure ''aws_clusters''), NewInstaller emptyDB)"
proof -
  have v: "SetDefaultsAndValidate sampleEnvAWSInsertFails sampleAWS = Inr sampleAWS"
    by (simp add: sample_defs)
  have s: "saveAWSCluster sampleEnvAWSInsertFails sampleAWS (NewInstaller emptyDB) =
     Returns (Some (Failure ''aws_clusters''), NewInstaller emptyDB)"
    by (simp add: sample_defs saveAWSCluster_def MarshalCluster_def MarshalAWS_def Begin_def
        ExecInsertCluster_def Rollback_def Let_def)
  from launchAWSCluster_save_fails [OF v s] show ?thesis .
qed

section \<open>The stream starts open\<close>

text \<open>
  C10. Immediately after New returns, IsClosed returns false, Err returns nil, and
  the channel StopCh exists and is not closed, whatever channels existed before.
\<close>

theorem New_starts_open:
  "IsClosed (fst (New h)) = Returns False
   \<and> Err (fst (New h)) = None
   \<and> StopCh (fst (New h)) < length (snd (New h))
   \<and> \<not> snd (New h) ! StopCh (fst (New h))"
  by (simp add: New_def IsClosed_def Err_def Let_def)

end
